theory Spec2Isabelle
  imports Complex_Main "HOL-Library.Stream" "HOL-Library.Product_Lexorder"
begin

section \<open>Objects and the store\<close>

text \<open>
  The simulation of \<^verbatim>\<open>main.py\<close> works on Python objects that are shared by reference:
  one \<^verbatim>\<open>Ability\<close> or \<^verbatim>\<open>StatusEffect\<close> object may be held by several characters, and a
  \<^verbatim>\<open>Character\<close> is reached from its team, from the turn order and from queued events.
  Objects therefore live in stores indexed by addresses, and a field holding an object
  holds its address.
\<close>

type_synonym addr = nat

datatype error = IndexError | OverflowError

record status_effect =
  se_name :: string
  duration :: int
  effect_value :: int
  effect_type :: string

record ability =
  ab_name :: string
  power :: int
  cooldown :: int
  current_cooldown :: int
  effect :: "addr option"

record item =
  it_name :: string
  it_effect :: string
  it_effect_value :: int
  quantity :: int

record character =
  name :: string
  max_hp :: int
  current_hp :: int
  attack :: int
  defense :: int
  speed :: int
  c_team_id :: string
  position :: int
  alive :: bool
  abilities :: "addr list"
  inventory :: "item list"
  status_effects :: "addr list"

record team =
  team_id :: string
  characters :: "addr list"
  formation :: "int list"

subsection \<open>Decimal rendering of integers in f-strings\<close>

definition digit_char :: "nat \<Rightarrow> char" where
  "digit_char d = ''0123456789'' ! (d mod 10)"

function str_nat :: "nat \<Rightarrow> string" where
  "str_nat n = (if n < 10 then [digit_char n] else str_nat (n div 10) @ [digit_char (n mod 10)])"
  by pat_completeness auto
termination
  by (relation "measure (\<lambda>n. n)") auto

declare str_nat.simps [simp del]

definition str_int :: "int \<Rightarrow> string" where
  "str_int i = (if i < 0 then CHR ''-'' # str_nat (nat (- i)) else str_nat (nat i))"

subsection \<open>StatusEffect\<close>

definition new_StatusEffect :: "string \<Rightarrow> int \<Rightarrow> int \<Rightarrow> string \<Rightarrow> status_effect" where
  "new_StatusEffect n d v t =
     \<lparr>se_name = n, duration = d, effect_value = v, effect_type = t\<rparr>"

definition tick :: "status_effect \<Rightarrow> status_effect" where
  "tick e = e\<lparr>duration := duration e - 1\<rparr>"

definition is_expired :: "status_effect \<Rightarrow> bool" where
  "is_expired e \<longleftrightarrow> duration e \<le> 0"

subsection \<open>Ability\<close>

definition new_Ability :: "string \<Rightarrow> int \<Rightarrow> int \<Rightarrow> addr option \<Rightarrow> ability" where
  "new_Ability n p c e =
     \<lparr>ab_name = n, power = p, cooldown = c, current_cooldown = 0, effect = e\<rparr>"

definition is_available :: "ability \<Rightarrow> bool" where
  "is_available ab \<longleftrightarrow> current_cooldown ab = 0"

definition use :: "ability \<Rightarrow> ability" where
  "use ab = ab\<lparr>current_cooldown := cooldown ab\<rparr>"

definition tick_cooldown :: "ability \<Rightarrow> ability" where
  "tick_cooldown ab =
     (if current_cooldown ab > 0 then ab\<lparr>current_cooldown := current_cooldown ab - 1\<rparr> else ab)"

subsection \<open>Character\<close>

definition new_Character ::
  "string \<Rightarrow> int \<Rightarrow> int \<Rightarrow> int \<Rightarrow> int \<Rightarrow> string \<Rightarrow> int \<Rightarrow> addr list \<Rightarrow> item list \<Rightarrow> character" where
  "new_Character n hp atk dfn spd tid pos abls its =
     \<lparr>name = n, max_hp = hp, current_hp = hp, attack = atk, defense = dfn, speed = spd,
      c_team_id = tid, position = pos, alive = True, abilities = abls, inventory = its,
      status_effects = []\<rparr>"

definition is_alive :: "character \<Rightarrow> bool" where
  "is_alive c \<longleftrightarrow> alive c"

definition take_damage :: "int \<Rightarrow> character \<Rightarrow> character" where
  "take_damage amount c =
     (let c1 = c\<lparr>current_hp := current_hp c - amount\<rparr>
      in if current_hp c1 \<le> 0 then c1\<lparr>current_hp := 0, alive := False\<rparr> else c1)"

definition heal :: "int \<Rightarrow> character \<Rightarrow> character" where
  "heal amount c =
     (let c1 = c\<lparr>current_hp := min (current_hp c + amount) (max_hp c)\<rparr>
      in if current_hp c1 > 0 then c1\<lparr>alive := True\<rparr> else c1)"

definition add_status_effect :: "addr \<Rightarrow> character \<Rightarrow> character" where
  "add_status_effect e c = c\<lparr>status_effects := status_effects c @ [e]\<rparr>"

text \<open>\<^verbatim>\<open>StatusEffect.apply_effect\<close>: the effect is only read, the character is changed.\<close>

definition apply_effect :: "status_effect \<Rightarrow> character \<Rightarrow> character" where
  "apply_effect e c =
     (if effect_type e = ''poison'' then take_damage (effect_value e) c
      else if effect_type e = ''heal'' then heal (effect_value e) c
      else if effect_type e = ''buff'' then c\<lparr>attack := attack c + effect_value e\<rparr>
      else if effect_type e = ''debuff'' then c\<lparr>defense := max 0 (defense c - effect_value e)\<rparr>
      else c)"

text \<open>\<^verbatim>\<open>Item.use_item\<close>: returns the used item and the changed character.\<close>

definition use_item :: "item \<Rightarrow> character \<Rightarrow> item \<times> character" where
  "use_item it c =
     (let c1 = (if it_effect it = ''heal'' then heal (it_effect_value it) c
                else if it_effect it = ''damage'' then take_damage (it_effect_value it) c
                else if it_effect it = ''buff'' then c\<lparr>attack := attack c + it_effect_value it\<rparr>
                else c)
      in (it\<lparr>quantity := quantity it - 1\<rparr>, c1))"

text \<open>
  \<^verbatim>\<open>Character.process_status_effects\<close> is defined below, on the store, because the
  effects it ticks are shared objects.
\<close>

subsection \<open>Log records and events\<close>

text \<open>
  The entries of the confrontation log are Python dictionaries over a fixed set of keys;
  a key that is absent is \<open>None\<close>.
\<close>

record action_detail =
  actor :: string
  action :: "string option"
  target :: "string option"
  damage :: int
  extra :: "string list"

record log_entry =
  turn_number :: "int option"
  actions :: "action_detail list option"
  le_status_effects :: "string list option"
  events :: "string list option"
  battle_result :: "string option"
  final_turn :: "int option"

datatype event =
    CriticalHitEvent (event_id: string) (description: string) addr addr int
  | MissEvent (event_id: string) (description: string) addr addr
  | AbilityUsedEvent (event_id: string) (description: string) addr addr "addr option"

text \<open>\<^verbatim>\<open>str(event)\<close>: the class \<^verbatim>\<open>Event\<close> defines \<^verbatim>\<open>__repr__\<close> only, which \<^verbatim>\<open>str\<close> falls back to.\<close>

definition str_event :: "event \<Rightarrow> string" where
  "str_event ev = ''<Event '' @ event_id ev @ '': '' @ description ev @ ''>''"

section \<open>The engine\<close>

text \<open>
  The record holds the fields of \<^verbatim>\<open>GameEngine\<close>, the three object stores, the state of the
  module-level generator of \<^verbatim>\<open>random\<close> and the operating system's entropy that
  \<^verbatim>\<open>uuid.uuid4\<close> reads. The generator is a stream of raw draws: \<^verbatim>\<open>random.random()\<close>
  takes the next draw \<open>k\<close> and returns \<open>k / 2^53\<close> (a double in \<open>[0, 1)\<close> is of that form,
  and for such a value the comparisons with the doubles \<^verbatim>\<open>0.3\<close>, \<^verbatim>\<open>0.1\<close> and \<^verbatim>\<open>0.2\<close> agree
  with the comparisons with \<open>3/10\<close>, \<open>1/10\<close> and \<open>2/10\<close>); \<^verbatim>\<open>random.choice(xs)\<close> takes the
  next draw and returns the element at that index modulo the length. The entropy is a
  stream of the hexadecimal identifiers that successive \<^verbatim>\<open>uuid4().hex\<close> calls return.
\<close>

record engine =
  team_a :: team
  team_b :: team
  turn_log :: "log_entry list"
  event_log :: "event list"
  battle_over :: bool
  turn_count :: int
  chars :: "addr \<Rightarrow> character"
  abils :: "addr \<Rightarrow> ability"
  effs :: "addr \<Rightarrow> status_effect"
  rng :: "nat stream"
  entropy :: "string stream"

text \<open>
  \<^verbatim>\<open>GameEngine.__init__\<close>. The seeding function of the library is the parameter \<open>seed\<close>; the
  generator is left as it is when no seed is given.
\<close>

definition new_GameEngine ::
  "(int \<Rightarrow> nat stream) \<Rightarrow> team \<Rightarrow> team \<Rightarrow> int option \<Rightarrow>
   (addr \<Rightarrow> character) \<Rightarrow> (addr \<Rightarrow> ability) \<Rightarrow> (addr \<Rightarrow> status_effect) \<Rightarrow>
   nat stream \<Rightarrow> string stream \<Rightarrow> engine" where
  "new_GameEngine seed ta tb random_seed cs abs0 es g u =
     \<lparr>team_a = ta, team_b = tb, turn_log = [], event_log = [], battle_over = False,
      turn_count = 0, chars = cs, abils = abs0, effs = es,
      rng = (case random_seed of None \<Rightarrow> g | Some n \<Rightarrow> seed n), entropy = u\<rparr>"

subsection \<open>Library calls\<close>

definition draw_unit :: "nat \<Rightarrow> rat" where
  "draw_unit k = of_nat (k mod 2 ^ 53) / 2 ^ 53"

definition random_random :: "engine \<Rightarrow> rat \<times> engine" where
  "random_random s = (draw_unit (shd (rng s)), s\<lparr>rng := stl (rng s)\<rparr>)"

text \<open>\<^verbatim>\<open>random.choice\<close> raises \<^verbatim>\<open>IndexError\<close> on an empty sequence.\<close>

definition random_choice :: "'a list \<Rightarrow> engine \<Rightarrow> error + ('a \<times> engine)" where
  "random_choice xs s =
     (if xs = [] then Inl IndexError
      else Inr (xs ! (shd (rng s) mod length xs), s\<lparr>rng := stl (rng s)\<rparr>))"

definition uuid4_hex :: "engine \<Rightarrow> string \<times> engine" where
  "uuid4_hex s = (shd (entropy s), s\<lparr>entropy := stl (entropy s)\<rparr>)"

text \<open>
  \<^verbatim>\<open>int(x * 0.5)\<close> for an integer \<open>x\<close>. The product converts \<open>x\<close> to a double first: the
  nearest value with 53 significant bits, ties to the even one, and \<^verbatim>\<open>OverflowError\<close>
  when that is \<open>2^1024\<close> or more. Halving a double that holds an integer is exact, and
  \<^verbatim>\<open>int\<close> truncates towards zero.
\<close>

function excess_bits :: "nat \<Rightarrow> nat" where
  "excess_bits n = (if n < 2 ^ 53 then 0 else Suc (excess_bits (n div 2)))"
  by pat_completeness auto
termination
  by (relation "measure (\<lambda>n. n)") auto

declare excess_bits.simps [simp del]

definition round_to_double :: "nat \<Rightarrow> nat" where
  "round_to_double n =
     (let k = excess_bits n; q = n div 2 ^ k; r = n mod 2 ^ k
      in if 2 * r > 2 ^ k \<or> (2 * r = 2 ^ k \<and> odd q) then (q + 1) * 2 ^ k else q * 2 ^ k)"

definition float_of_int :: "int \<Rightarrow> error + int" where
  "float_of_int x =
     (let m = round_to_double (nat \<bar>x\<bar>)
      in if m \<ge> 2 ^ 1024 then Inl OverflowError else Inr (sgn x * int m))"

definition int_half :: "int \<Rightarrow> error + int" where
  "int_half x =
     (case float_of_int x of
        Inl e \<Rightarrow> Inl e
      | Inr v \<Rightarrow> Inr (sgn v * (\<bar>v\<bar> div 2)))"

subsection \<open>Character and Team on the store\<close>

fun status_effect_loop :: "addr \<Rightarrow> addr list \<Rightarrow> string list \<Rightarrow> engine \<Rightarrow> string list \<times> engine" where
  "status_effect_loop c [] logs s = (logs, s)"
| "status_effect_loop c (e # es) logs s =
     (let s1 = s\<lparr>chars := (chars s)(c := apply_effect (effs s e) (chars s c))\<rparr>;
          logs1 = logs @ [name (chars s1 c) @ '' is affected by '' @ se_name (effs s1 e) @
                          '' ('' @ str_int (effect_value (effs s1 e)) @ '')''];
          s2 = s1\<lparr>effs := (effs s1)(e := tick (effs s1 e))\<rparr>
      in status_effect_loop c es logs1 s2)"

definition process_status_effects :: "addr \<Rightarrow> engine \<Rightarrow> string list \<times> engine" where
  "process_status_effects c s =
     (let (logs, s1) = status_effect_loop c (status_effects (chars s c)) [] s;
          kept = filter (\<lambda>e. \<not> is_expired (effs s1 e)) (status_effects (chars s1 c))
      in (logs, s1\<lparr>chars := (chars s1)(c := (chars s1 c)\<lparr>status_effects := kept\<rparr>)\<rparr>))"

definition tick_abilities :: "addr \<Rightarrow> engine \<Rightarrow> engine" where
  "tick_abilities c s =
     s\<lparr>abils := fold (\<lambda>ab h. h(ab := tick_cooldown (h ab))) (abilities (chars s c)) (abils s)\<rparr>"

definition add_character :: "addr \<Rightarrow> team \<Rightarrow> (addr \<Rightarrow> character) \<Rightarrow> team" where
  "add_character c t cs =
     t\<lparr>characters := characters t @ [c], formation := formation t @ [position (cs c)]\<rparr>"

definition get_alive_characters :: "team \<Rightarrow> engine \<Rightarrow> addr list" where
  "get_alive_characters t s = filter (\<lambda>c. is_alive (chars s c)) (characters t)"

definition is_defeated :: "team \<Rightarrow> engine \<Rightarrow> bool" where
  "is_defeated t s \<longleftrightarrow> list_all (\<lambda>c. \<not> is_alive (chars s c)) (characters t)"

definition rearrange_formation ::
  "int list \<Rightarrow> team \<times> (addr \<Rightarrow> character) \<Rightarrow> team \<times> (addr \<Rightarrow> character)" where
  "rearrange_formation new_order tc =
     (case tc of (t, cs) \<Rightarrow>
        if length new_order \<noteq> length (characters t) then (t, cs)
        else (t\<lparr>formation := new_order\<rparr>,
              fold (\<lambda>(c, new_pos) h. h(c := (h c)\<lparr>position := new_pos\<rparr>))
                   (zip (characters t) new_order) cs))"

subsection \<open>Event constructors and their deferred effects\<close>

text \<open>Every event draws its \<^verbatim>\<open>event_id\<close> from \<^verbatim>\<open>uuid.uuid4()\<close> when it is created.\<close>

definition new_CriticalHitEvent :: "addr \<Rightarrow> addr \<Rightarrow> int \<Rightarrow> engine \<Rightarrow> event \<times> engine" where
  "new_CriticalHitEvent attacker tgt extra_damage s =
     (let (uid, s1) = uuid4_hex s
      in (CriticalHitEvent uid
            (''Critical hit by '' @ name (chars s1 attacker) @ '' on '' @ name (chars s1 tgt) @
             '' for extra '' @ str_int extra_damage)
            attacker tgt extra_damage, s1))"

definition new_MissEvent :: "addr \<Rightarrow> addr \<Rightarrow> engine \<Rightarrow> event \<times> engine" where
  "new_MissEvent attacker tgt s =
     (let (uid, s1) = uuid4_hex s
      in (MissEvent uid
            (name (chars s1 attacker) @ [CHR 0x27] @ ''s attack missed '' @ name (chars s1 tgt))
            attacker tgt, s1))"

definition new_AbilityUsedEvent :: "addr \<Rightarrow> addr \<Rightarrow> addr option \<Rightarrow> engine \<Rightarrow> event \<times> engine" where
  "new_AbilityUsedEvent usr ab tgt s =
     (let (uid, s1) = uuid4_hex s
      in (AbilityUsedEvent uid
            (name (chars s1 usr) @ '' used ability '' @ ab_name (abils s1 ab) @ '' on '' @
             (case tgt of Some t \<Rightarrow> name (chars s1 t) | None \<Rightarrow> ''None''))
            usr ab tgt, s1))"

fun process :: "event \<Rightarrow> engine \<Rightarrow> engine" where
  "process (CriticalHitEvent uid d attacker tgt extra_damage) s =
     s\<lparr>chars := (chars s)(tgt := take_damage extra_damage (chars s tgt))\<rparr>"
| "process (MissEvent uid d attacker tgt) s = s"
| "process (AbilityUsedEvent uid d usr ab tgt) s =
     (case (effect (abils s ab), tgt) of
        (Some e, Some t) \<Rightarrow> s\<lparr>chars := (chars s)(t := add_status_effect e (chars s t))\<rparr>
      | _ \<Rightarrow> s)"

subsection \<open>GameEngine\<close>

definition get_all_alive_characters :: "engine \<Rightarrow> addr list" where
  "get_all_alive_characters s =
     get_alive_characters (team_a s) s @ get_alive_characters (team_b s) s"

fun status_phase_loop :: "addr list \<Rightarrow> string list \<Rightarrow> engine \<Rightarrow> string list \<times> engine" where
  "status_phase_loop [] logs s = (logs, s)"
| "status_phase_loop (c # cs) logs s =
     (let (l, s1) = process_status_effects c s in status_phase_loop cs (logs @ l) s1)"

text \<open>\<^verbatim>\<open>GameEngine._process_status_effects\<close>: the list of fighters is taken once, before the loop.\<close>

definition engine_process_status_effects :: "engine \<Rightarrow> string list \<times> engine" where
  "engine_process_status_effects s = status_phase_loop (get_all_alive_characters s) [] s"

definition choose_target :: "addr \<Rightarrow> engine \<Rightarrow> error + (addr option \<times> engine)" where
  "choose_target fighter s =
     (let target_team = (if c_team_id (chars s fighter) = team_id (team_a s)
                         then team_b s else team_a s);
          living_enemies = get_alive_characters target_team s
      in if living_enemies \<noteq> [] then
           (case random_choice living_enemies s of
              Inl e \<Rightarrow> Inl e
            | Inr (t, s1) \<Rightarrow> Inr (Some t, s1))
         else Inr (None, s))"

text \<open>The record that \<^verbatim>\<open>_perform_action\<close> starts from.\<close>

definition new_action_detail :: "addr \<Rightarrow> engine \<Rightarrow> action_detail" where
  "new_action_detail fighter s =
     \<lparr>actor = name (chars s fighter), action = None, target = None, damage = 0, extra = []\<rparr>"

text \<open>The first branch of \<^verbatim>\<open>_perform_action\<close>: an ability is used.\<close>

definition ability_action ::
  "addr \<Rightarrow> action_detail \<Rightarrow> addr list \<Rightarrow> engine \<Rightarrow> error + (action_detail \<times> engine)" where
  "ability_action fighter ad available_abilities s =
     (case random_choice available_abilities s of
        Inl e \<Rightarrow> Inl e
      | Inr (ab, s1) \<Rightarrow>
         (case choose_target fighter s1 of
            Inl e \<Rightarrow> Inl e
          | Inr (None, s2) \<Rightarrow>
              Inr (ad\<lparr>action := Some ''idle''\<rparr>, s2)
          | Inr (Some tgt, s2) \<Rightarrow>
              (let s3 = s2\<lparr>abils := (abils s2)(ab := use (abils s2 ab))\<rparr>;
                   (ev, s4) = new_AbilityUsedEvent fighter ab (Some tgt) s3;
                   s5 = s4\<lparr>event_log := event_log s4 @ [ev]\<rparr>;
                   dmg = max 1 (attack (chars s5 fighter) + power (abils s5 ab)
                                - defense (chars s5 tgt));
                   s6 = s5\<lparr>chars := (chars s5)(tgt := take_damage dmg (chars s5 tgt))\<rparr>
               in Inr (ad\<lparr>action := Some (''use ability '' @ ab_name (abils s6 ab)),
                          target := Some (name (chars s6 tgt)),
                          damage := dmg,
                          extra := extra ad @ [''ability event logged'']\<rparr>, s6))))"

text \<open>
  The critical roll of a basic attack: the extra damage, and the event queued for it.
  \<^verbatim>\<open>int(fighter.attack * 0.5)\<close> is computed before the event is created.
\<close>

definition roll_critical :: "addr \<Rightarrow> addr \<Rightarrow> engine \<Rightarrow> error + (int \<times> engine)" where
  "roll_critical fighter tgt s =
     (let (r, s1) = random_random s
      in if r < 2 / 10 then
           (case int_half (attack (chars s1 fighter)) of
              Inl e \<Rightarrow> Inl e
            | Inr extra_damage \<Rightarrow>
                (let (ev, s2) = new_CriticalHitEvent fighter tgt extra_damage s1
                 in Inr (extra_damage, s2\<lparr>event_log := event_log s2 @ [ev]\<rparr>)))
         else Inr (0, s1))"

text \<open>The second branch of \<^verbatim>\<open>_perform_action\<close>: a basic attack.\<close>

definition basic_attack ::
  "addr \<Rightarrow> action_detail \<Rightarrow> engine \<Rightarrow> error + (action_detail \<times> engine)" where
  "basic_attack fighter ad s =
     (case choose_target fighter s of
        Inl e \<Rightarrow> Inl e
      | Inr (None, s1) \<Rightarrow>
          Inr (ad\<lparr>action := Some ''idle''\<rparr>, s1)
      | Inr (Some tgt, s1) \<Rightarrow>
          (let (r, s2) = random_random s1
           in if r < 1 / 10 then
                (let (ev, s3) = new_MissEvent fighter tgt s2;
                     s4 = s3\<lparr>event_log := event_log s3 @ [ev]\<rparr>
                 in Inr (ad\<lparr>action := Some ''attack (missed)'',
                            target := Some (name (chars s4 tgt)),
                            damage := 0\<rparr>, s4))
              else
                (case roll_critical fighter tgt s2 of
                   Inl e \<Rightarrow> Inl e
                 | Inr (extra_damage, s4) \<Rightarrow>
                     (let base_damage = max 1 (attack (chars s4 fighter) - defense (chars s4 tgt));
                          total_damage = base_damage + extra_damage;
                          s5 = s4\<lparr>chars := (chars s4)
                                  (tgt := take_damage total_damage (chars s4 tgt))\<rparr>
                      in Inr (ad\<lparr>action := Some ''attack'',
                                 target := Some (name (chars s5 tgt)),
                                 damage := total_damage\<rparr>, s5)))))"

text \<open>
  \<^verbatim>\<open>_perform_action\<close>. The test \<^verbatim>\<open>available_abilities and random.random() < 0.3\<close> draws
  from the generator only when an ability is available.
\<close>

definition perform_action :: "addr \<Rightarrow> engine \<Rightarrow> error + (action_detail \<times> engine)" where
  "perform_action fighter s =
     (let ad = new_action_detail fighter s;
          available_abilities =
            filter (\<lambda>ab. is_available (abils s ab)) (abilities (chars s fighter))
      in if available_abilities \<noteq> [] then
           (let (r, s1) = random_random s
            in if r < 3 / 10 then ability_action fighter ad available_abilities s1
               else basic_attack fighter ad s1)
         else basic_attack fighter ad s)"

text \<open>
  The \<^verbatim>\<open>for fighter in all_fighters\<close> loop of \<^verbatim>\<open>run_battle\<close>, with the list of action
  records of the turn as an accumulator. Its \<^verbatim>\<open>break\<close> sets \<^verbatim>\<open>battle_over\<close> and leaves
  the rest of the turn order unvisited.
\<close>

fun action_loop ::
  "addr list \<Rightarrow> action_detail list \<Rightarrow> engine \<Rightarrow> error + (action_detail list \<times> engine)" where
  "action_loop [] acts s = Inr (acts, s)"
| "action_loop (fighter # rest) acts s =
     (if \<not> is_alive (chars s fighter) then action_loop rest acts s
      else
        (let s1 = tick_abilities fighter s
         in case perform_action fighter s1 of
              Inl e \<Rightarrow> Inl e
            | Inr (action_detail, s2) \<Rightarrow>
                if is_defeated (team_a s2) s2 \<or> is_defeated (team_b s2) s2
                then Inr (acts @ [action_detail], s2\<lparr>battle_over := True\<rparr>)
                else action_loop rest (acts @ [action_detail]) s2))"

text \<open>
  \<^verbatim>\<open>self.turn_log[-1].setdefault("events", []).append(str(event))\<close>; indexing an empty
  log raises \<^verbatim>\<open>IndexError\<close>.
\<close>

definition append_event_text :: "string \<Rightarrow> log_entry \<Rightarrow> log_entry" where
  "append_event_text txt entry =
     entry\<lparr>events := Some ((case events entry of None \<Rightarrow> [] | Some evs \<Rightarrow> evs) @ [txt])\<rparr>"

function process_events :: "engine \<Rightarrow> error + engine" where
  "process_events s =
     (case event_log s of
        [] \<Rightarrow> Inr s
      | ev # rest \<Rightarrow>
          (let s1 = process ev (s\<lparr>event_log := rest\<rparr>)
           in if turn_log s1 = [] then Inl IndexError
              else process_events
                     (s1\<lparr>turn_log := butlast (turn_log s1) @
                                       [append_event_text (str_event ev) (last (turn_log s1))]\<rparr>)))"
  by pat_completeness auto
termination
proof (relation "measure (\<lambda>s. length (event_log s))")
  show "wf (measure (\<lambda>s. length (event_log s)))"
    by simp
next
  fix s :: engine and ev rest s1
  assume q: "event_log s = ev # rest" and s1: "s1 = process ev (s\<lparr>event_log := rest\<rparr>)"
  have "event_log (process ev t) = event_log t" for t
    by (cases ev) (simp_all split: option.splits)
  with q s1 show "(s1\<lparr>turn_log := butlast (turn_log s1) @
                     [append_event_text (str_event ev) (last (turn_log s1))]\<rparr>, s)
                  \<in> measure (\<lambda>s. length (event_log s))"
    by simp
qed

declare process_events.simps [simp del]

text \<open>
  One pass through the body of the \<^verbatim>\<open>while\<close> loop of \<^verbatim>\<open>run_battle\<close>. When no fighter is
  alive after the status phase the body sets \<^verbatim>\<open>battle_over\<close> and breaks out of the
  \<^verbatim>\<open>while\<close> loop: the turn record built so far is not appended and the events are not
  processed.
\<close>

definition run_turn :: "engine \<Rightarrow> error + engine" where
  "run_turn s =
     (let s1 = s\<lparr>turn_count := turn_count s + 1\<rparr>;
          n = turn_count s1;
          (status_logs, s2) = engine_process_status_effects s1;
          all_fighters = get_all_alive_characters s2
      in if all_fighters = [] then Inr (s2\<lparr>battle_over := True\<rparr>)
         else
           (case action_loop
                   (sort_key (\<lambda>c. (- speed (chars s2 c), position (chars s2 c))) all_fighters)
                   [] s2 of
              Inl e \<Rightarrow> Inl e
            | Inr (acts, s3) \<Rightarrow>
                process_events
                  (s3\<lparr>turn_log := turn_log s3 @
                        [\<lparr>turn_number = Some n, actions = Some acts,
                          le_status_effects = (if status_logs \<noteq> [] then Some status_logs else None),
                          events = None, battle_result = None, final_turn = None\<rparr>]\<rparr>)))"

definition max_turns :: int where
  "max_turns = 100"

definition log_battle_result :: "engine \<Rightarrow> engine" where
  "log_battle_result s =
     (let result =
            (if is_defeated (team_a s) s \<and> is_defeated (team_b s) s
               then ''Draw: Both teams defeated.''
             else if is_defeated (team_a s) s then ''Team '' @ team_id (team_b s) @ '' wins!''
             else if is_defeated (team_b s) s then ''Team '' @ team_id (team_a s) @ '' wins!''
             else ''Turn limit reached. Possibly a draw.'')
      in s\<lparr>turn_log := turn_log s @
            [\<lparr>turn_number = None, actions = None, le_status_effects = None, events = None,
              battle_result = Some result, final_turn = Some (turn_count s)\<rparr>]\<rparr>)"

text \<open>
  The \<^verbatim>\<open>while\<close> loop of \<^verbatim>\<open>run_battle\<close>. Both \<^verbatim>\<open>break\<close> statements of the body set
  \<^verbatim>\<open>battle_over\<close> first, so leaving the loop at once and testing the loop condition again
  are the same.
\<close>

function run_loop :: "engine \<Rightarrow> error + engine" where
  "run_loop s =
     (if \<not> battle_over s \<and> turn_count s < max_turns then
        (case run_turn s of Inl e \<Rightarrow> Inl e | Inr s' \<Rightarrow> run_loop s')
      else Inr s)"
  by pat_completeness auto
termination
proof (relation "measure (\<lambda>s. nat (max_turns - turn_count s))")
  show "wf (measure (\<lambda>s. nat (max_turns - turn_count s)))"
    by simp
next
  fix s s' :: engine
  assume c: "\<not> battle_over s \<and> turn_count s < max_turns" and r: "run_turn s = Inr s'"
  have sel: "turn_count (snd (status_effect_loop c es logs t)) = turn_count t" for c es logs t
    by (induction es arbitrary: logs t) (simp_all add: Let_def)
  have pse: "turn_count (snd (process_status_effects c t)) = turn_count t" for c t
    using sel [of c "status_effects (chars t c)" "[]" t]
    by (auto simp: process_status_effects_def Let_def split: prod.splits)
  have spl: "turn_count (snd (status_phase_loop cs logs t)) = turn_count t" for cs logs t
  proof (induction cs arbitrary: logs t)
    case Nil
    show ?case by simp
  next
    case (Cons c cs)
    show ?case
      using pse [of c t] Cons [of "logs @ fst (process_status_effects c t)" "snd (process_status_effects c t)"]
      by (auto simp: Let_def split: prod.splits)
  qed
  have pa: "turn_count t' = turn_count t" if "perform_action f t = Inr (ad, t')" for f t ad t'
    using that
    by (auto simp: perform_action_def ability_action_def basic_attack_def roll_critical_def
          choose_target_def random_choice_def random_random_def new_AbilityUsedEvent_def
          new_MissEvent_def new_CriticalHitEvent_def uuid4_hex_def Let_def
          split: if_splits sum.splits prod.splits option.splits)
  have al: "turn_count t' = turn_count t" if "action_loop fs acts t = Inr (acts', t')"
    for fs acts t acts' t'
    using that
  proof (induction fs arbitrary: acts t)
    case Nil
    then show ?case by simp
  next
    case (Cons f fs)
    then show ?case
      by (auto simp: Let_def tick_abilities_def split: if_splits sum.splits prod.splits dest!: pa)
  qed
  have pr: "turn_count (process ev t) = turn_count t" for ev t
    by (cases ev) (simp_all split: option.splits)
  have pe: "process_events t = Inr t' \<Longrightarrow> turn_count t' = turn_count t" for t t'
  proof (induction t rule: process_events.induct)
    case (1 t)
    show ?case
    proof (cases "event_log t")
      case Nil
      with 1(2) show ?thesis
        by (simp add: process_events.simps [of t])
    next
      case (Cons ev rest)
      define u where "u = process ev (t\<lparr>event_log := rest\<rparr>)"
      from 1(2) Cons have ne: "turn_log u \<noteq> []"
        by (auto simp: process_events.simps [of t] Let_def u_def split: if_splits)
      from 1(2) Cons ne have
        "process_events (u\<lparr>turn_log := butlast (turn_log u) @
            [append_event_text (str_event ev) (last (turn_log u))]\<rparr>) = Inr t'"
        by (simp add: process_events.simps [of t] Let_def u_def)
      from 1(1) [OF Cons u_def ne this] show ?thesis
        by (simp add: pr u_def)
    qed
  qed
  obtain logs s2 where e: "engine_process_status_effects (s\<lparr>turn_count := turn_count s + 1\<rparr>) = (logs, s2)"
    by (cases "engine_process_status_effects (s\<lparr>turn_count := turn_count s + 1\<rparr>)")
  have t2: "turn_count s2 = turn_count s + 1"
    using spl [of "get_all_alive_characters (s\<lparr>turn_count := turn_count s + 1\<rparr>)" "[]"
                  "s\<lparr>turn_count := turn_count s + 1\<rparr>"] e
    by (simp add: engine_process_status_effects_def)
  have "turn_count s' = turn_count s + 1"
    using r e t2
    by (auto simp: run_turn_def Let_def
          split: if_splits sum.splits prod.splits dest!: pe al)
  with c show "(s', s) \<in> measure (\<lambda>s. nat (max_turns - turn_count s))"
    by simp
qed

definition run_battle :: "engine \<Rightarrow> error + engine" where
  "run_battle s =
     (case run_loop s of Inl e \<Rightarrow> Inl e | Inr s' \<Rightarrow> Inr (log_battle_result s'))"

declare run_loop.simps [simp del]

definition get_confrontation_log :: "engine \<Rightarrow> log_entry list" where
  "get_confrontation_log s = turn_log s"

text \<open>A whole run, as the caller sees it: the log of the finished battle, or the exception.\<close>

definition battle_log :: "engine \<Rightarrow> error + log_entry list" where
  "battle_log s =
     (case run_battle s of Inl e \<Rightarrow> Inl e | Inr s' \<Rightarrow> Inr (get_confrontation_log s'))"

section \<open>Predicates of the statements\<close>

definition is_turn_record :: "log_entry \<Rightarrow> bool" where
  "is_turn_record r \<longleftrightarrow>
     turn_number r \<noteq> None \<and> actions r \<noteq> None \<and> battle_result r = None \<and> final_turn r = None"

definition is_result_record :: "log_entry \<Rightarrow> bool" where
  "is_result_record r \<longleftrightarrow>
     battle_result r \<noteq> None \<and> final_turn r \<noteq> None \<and> turn_number r = None \<and> actions r = None"

definition health_in_bounds :: "character \<Rightarrow> bool" where
  "health_in_bounds c \<longleftrightarrow> 0 \<le> current_hp c \<and> current_hp c \<le> max_hp c"

definition all_health_in_bounds :: "engine \<Rightarrow> bool" where
  "all_health_in_bounds s \<longleftrightarrow> (\<forall>a. health_in_bounds (chars s a))"

text \<open>The extra damage that a queued event will deal when it is processed.\<close>

fun deferred_damage :: "event \<Rightarrow> int" where
  "deferred_damage (CriticalHitEvent uid d attacker tgt extra_damage) = extra_damage"
| "deferred_damage (MissEvent uid d attacker tgt) = 0"
| "deferred_damage (AbilityUsedEvent uid d usr ab tgt) = 0"

text \<open>
  No amount that the engine passes to \<^verbatim>\<open>take_damage\<close> or \<^verbatim>\<open>heal\<close> is negative: attack
  values, the magnitudes of poison, heal and buff effects, and the damage of queued events.
\<close>

definition amounts_nonneg :: "engine \<Rightarrow> bool" where
  "amounts_nonneg s \<longleftrightarrow>
     (\<forall>a. 0 \<le> attack (chars s a)) \<and>
     (\<forall>e. effect_type (effs s e) = ''debuff'' \<or> 0 \<le> effect_value (effs s e)) \<and>
     list_all (\<lambda>ev. 0 \<le> deferred_damage ev) (event_log s)"

text \<open>The order that the sort of \<^verbatim>\<open>run_battle\<close> establishes: faster first, then lower position.\<close>

definition acts_before :: "engine \<Rightarrow> addr \<Rightarrow> addr \<Rightarrow> bool" where
  "acts_before s a b \<longleftrightarrow>
     speed (chars s a) > speed (chars s b) \<or>
     (speed (chars s a) = speed (chars s b) \<and> position (chars s a) \<le> position (chars s b))"

section \<open>Example battles\<close>

definition no_character :: character where
  "no_character = new_Character [] 0 0 0 0 [] 0 [] []"

definition no_ability :: ability where
  "no_ability = new_Ability [] 0 0 None"

definition no_effect :: status_effect where
  "no_effect = new_StatusEffect [] 0 0 []"

definition duel_team_a :: team where
  "duel_team_a = \<lparr>team_id = ''Team_A'', characters = [0], formation = [0]\<rparr>"

definition duel_team_b :: team where
  "duel_team_b = \<lparr>team_id = ''Team_B'', characters = [1], formation = [0]\<rparr>"

text \<open>
  Two squads of one member: A (attack 12, defense 4, speed 14, 40 health) against B
  (attack 13, defense 4, speed 11), without abilities.
\<close>

definition duel_chars :: "int \<Rightarrow> addr \<Rightarrow> character" where
  "duel_chars hp_b =
     (\<lambda>_. no_character)
       (0 := new_Character ''A'' 40 12 4 14 ''Team_A'' 0 [] [],
        1 := new_Character ''B'' hp_b 13 4 11 ''Team_B'' 0 [] [])"

text \<open>
  A generator whose first draws make A's first basic attack a critical hit: the target
  choice, a miss roll of \<open>1/2\<close> and a critical roll of \<open>0\<close>; every later roll is \<open>1/2\<close>.
\<close>

definition critical_draws :: "nat stream" where
  "critical_draws = 0 ## 2 ^ 52 ## 0 ## sconst (2 ^ 52)"

definition duel :: "int \<Rightarrow> string stream \<Rightarrow> engine" where
  "duel hp_b u =
     new_GameEngine (\<lambda>_. critical_draws) duel_team_a duel_team_b (Some 12345)
       (duel_chars hp_b) (\<lambda>_. no_ability) (\<lambda>_. no_effect) (sconst 0) u"

text \<open>
  B holds the ability Quick Strike (power 3, cooldown 3) and 5 health. In the first turn A
  misses and B uses the ability; in the second turn A hits B for 8.
\<close>

definition cooldown_chars :: "addr \<Rightarrow> character" where
  "cooldown_chars =
     (\<lambda>_. no_character)
       (0 := new_Character ''A'' 40 12 4 14 ''Team_A'' 0 [] [],
        1 := new_Character ''B'' 5 13 4 11 ''Team_B'' 0 [0] [])"

definition cooldown_duel :: engine where
  "cooldown_duel =
     new_GameEngine (\<lambda>_. 0 ## 0 ## 0 ## 0 ## 0 ## sconst (2 ^ 52)) duel_team_a duel_team_b
       (Some 7) cooldown_chars ((\<lambda>_. no_ability)(0 := new_Ability ''Quick Strike'' 3 3 None))
       (\<lambda>_. no_effect) (sconst 0) (sconst ''c0ffee'')"

text \<open>A and B have 1 health each and hold the same poison effect (magnitude 2, duration 3).\<close>

definition poisoned_chars :: "addr \<Rightarrow> character" where
  "poisoned_chars =
     (\<lambda>_. no_character)
       (0 := add_status_effect 0 (new_Character ''A'' 1 12 4 14 ''Team_A'' 0 [] []),
        1 := add_status_effect 0 (new_Character ''B'' 1 13 4 11 ''Team_B'' 0 [] []))"

definition poisoned_duel :: engine where
  "poisoned_duel =
     new_GameEngine (\<lambda>_. sconst 0) duel_team_a duel_team_b (Some 7)
       poisoned_chars (\<lambda>_. no_ability)
       ((\<lambda>_. no_effect)(0 := new_StatusEffect ''Poison'' 3 2 ''poison''))
       (sconst 0) (sconst ''c0ffee'')"

text \<open>A alone, with 5 health and a poison effect of magnitude 2 and duration 3.\<close>

definition poison_victim :: engine where
  "poison_victim =
     new_GameEngine (\<lambda>_. sconst 0) duel_team_a duel_team_b None
       ((\<lambda>_. no_character)(0 := add_status_effect 0 (new_Character ''A'' 5 12 4 14 ''Team_A'' 0 [] [])))
       (\<lambda>_. no_ability)
       ((\<lambda>_. no_effect)(0 := new_StatusEffect ''Poison'' 3 2 ''poison''))
       (sconst 0) (sconst ''c0ffee'')"

section \<open>Evaluating the example battles\<close>

lemmas example_defs = duel_def duel_chars_def duel_team_a_def duel_team_b_def critical_draws_def
  no_character_def no_ability_def no_effect_def new_GameEngine_def new_Character_def
  new_Ability_def new_StatusEffect_def cooldown_duel_def cooldown_chars_def
  poisoned_duel_def poisoned_chars_def poison_victim_def

lemmas engine_defs = perform_action_def basic_attack_def roll_critical_def ability_action_def
  choose_target_def
  random_choice_def random_random_def draw_unit_def uuid4_hex_def new_CriticalHitEvent_def
  new_MissEvent_def new_AbilityUsedEvent_def new_action_detail_def get_alive_characters_def
  is_alive_def
  is_available_def take_damage_def Let_def str_int_def tick_abilities_def
  is_defeated_def get_all_alive_characters_def run_battle_def run_turn_def max_turns_def
  engine_process_status_effects_def process_status_effects_def apply_effect_def tick_def
  is_expired_def heal_def add_status_effect_def log_battle_result_def append_event_text_def
  str_event_def use_def tick_cooldown_def get_confrontation_log_def battle_log_def
  run_loop.simps process_events.simps

lemma excess_bits_small: "n < 2 ^ 53 \<Longrightarrow> excess_bits n = 0"
  by (simp add: excess_bits.simps)

lemma round_to_double_small: "n < 2 ^ 53 \<Longrightarrow> round_to_double n = n"
  by (simp add: round_to_double_def excess_bits_small)

lemma nat_abs_small: "\<bar>x\<bar> < 2 ^ 53 \<Longrightarrow> nat \<bar>x\<bar> < 2 ^ 53"
  by (simp add: nat_less_iff)

lemma small_no_overflow: "n < (2::nat) ^ 53 \<Longrightarrow> \<not> 2 ^ 1024 \<le> n"
proof -
  assume "n < 2 ^ 53"
  also have "(2::nat) ^ 53 \<le> 2 ^ 1024"
    by (rule power_increasing) simp_all
  finally show ?thesis
    by simp
qed

lemma float_of_int_small: "\<bar>x\<bar> < 2 ^ 53 \<Longrightarrow> float_of_int x = Inr x"
  using nat_abs_small [of x]
  by (simp add: float_of_int_def round_to_double_small small_no_overflow sgn_if)

lemma int_half_small: "\<bar>x\<bar> < 2 ^ 53 \<Longrightarrow> int_half x = Inr (sgn x * (\<bar>x\<bar> div 2))"
  by (simp add: int_half_def float_of_int_small)

lemma int_half_12: "int_half 12 = Inr 6"
  by (simp add: int_half_small)

lemma str_nat_digit: "n < 10 \<Longrightarrow> str_nat n = [digit_char n]"
  by (simp add: str_nat.simps)

lemma digit_char_values: "digit_char 2 = CHR ''2''" "digit_char 6 = CHR ''6''"
  by (simp_all add: digit_char_def)

lemma duel_log:
  "battle_log (duel 10 u) =
     Inr [\<lparr>turn_number = Some 1,
           actions = Some [\<lparr>actor = ''A'', action = Some ''attack'', target = Some ''B'',
                            damage = 14, extra = []\<rparr>],
           le_status_effects = None,
           events = Some [''<Event '' @ shd u @ '': Critical hit by A on B for extra 6>''],
           battle_result = None, final_turn = None\<rparr>,
          \<lparr>turn_number = None, actions = None, le_status_effects = None, events = None,
           battle_result = Some ''Team Team_A wins!'', final_turn = Some 1\<rparr>]"
  by (simp add: engine_defs example_defs str_nat_digit digit_char_values int_half_12)

text \<open>
  Claim C1: two runs on identical squads with the same seed produce identical confrontation
  logs, the entries of the events lists included. The example refutes it on the code: the
  two runs below have the same squads, abilities and seed, and the log of either holds the
  \<^verbatim>\<open>event_id\<close> that \<^verbatim>\<open>uuid.uuid4()\<close> drew for the critical hit, which the seed does not fix.
\<close>

theorem event_ids_differ_between_runs:
  "battle_log (duel 10 (sconst ''6fa459eaee8a3ca4894edb77e160355e'')) \<noteq>
   battle_log (duel 10 (sconst ''16fd27068baf433b82eb8c7fada847da''))"
  by (simp add: duel_log)

text \<open>
  Claim C2: the action that queues a critical hit applies only the base damage
  \<open>max 1 (attack - defense)\<close>, and the extra damage reaches the target at the flush. In the
  example A (attack 12) hits B (defense 4, 40 health) critically: the base damage is 8 and
  the extra is 6. The code applies \<open>8 + 6\<close> in the action (26 health instead of 32), and
  the flush of the same turn applies the extra 6 once more (20 health), so that B loses 20
  where the record reports a damage of 14.
\<close>

theorem critical_extra_applied_at_once_and_again:
  "(case perform_action 0 (duel 40 u) of
      Inl e \<Rightarrow> False
    | Inr (ad, s1) \<Rightarrow>
        damage ad = 14 \<and> current_hp (chars s1 1) = 26 \<and>
        event_log s1 = [CriticalHitEvent (shd u) ''Critical hit by A on B for extra 6'' 0 1 6]) \<and>
   (case run_turn (duel 40 u) of
      Inl e \<Rightarrow> False
    | Inr s2 \<Rightarrow> current_hp (chars s2 1) = 20 \<and> event_log s2 = [])"
  by (simp add: engine_defs example_defs str_nat_digit digit_char_values int_half_12)

text \<open>
  Claim C3: at the start of each turn the cooldowns of every Combatant are decremented,
  also for one that dies in the turn or is skipped when the action loop ends early. In the
  example B uses Quick Strike (cooldown 3) in turn 1; in turn 2 A acts first and defeats
  B, and the cooldown is still 3 when the battle ends after two turns.
\<close>

theorem cooldown_not_ticked_counterexample:
  "(case run_battle cooldown_duel of
      Inl e \<Rightarrow> False
    | Inr s \<Rightarrow> turn_count s = 2 \<and> current_cooldown (abils s 0) = 3 \<and>
        map (map_option (map action)) (map actions (turn_log s)) =
          [Some [Some ''attack (missed)'', Some ''use ability Quick Strike''],
           Some [Some ''attack''], None])"
  by (simp add: engine_defs example_defs str_nat_digit digit_char_values int_half_12)


text \<open>
  Claim C9: a poison effect of magnitude 2 and duration 3, the only effect of a Combatant
  with 5 health, leaves 3, then 1, then 0 health after three passes of
  \<^verbatim>\<open>process_status_effects\<close>; the third pass kills the Combatant and removes the effect.
\<close>

theorem poison_three_passes:
  assumes "status_effects (chars s c) = [e]"
    and "effect_type (effs s e) = ''poison''"
    and "effect_value (effs s e) = 2"
    and "duration (effs s e) = 3"
    and "current_hp (chars s c) = 5"
    and "s1 = snd (process_status_effects c s)"
    and "s2 = snd (process_status_effects c s1)"
    and "s3 = snd (process_status_effects c s2)"
  shows "current_hp (chars s1 c) = 3 \<and> current_hp (chars s2 c) = 1 \<and>
         current_hp (chars s3 c) = 0 \<and> \<not> is_alive (chars s3 c) \<and>
         status_effects (chars s1 c) = [e] \<and> status_effects (chars s2 c) = [e] \<and>
         status_effects (chars s3 c) = []"
  using assms
  by (simp add: process_status_effects_def Let_def apply_effect_def take_damage_def tick_def
        is_expired_def is_alive_def)

theorem poison_three_passes_witness:
  "current_hp (chars (snd (process_status_effects 0 poison_victim)) 0) = 3 \<and>
   current_hp (chars (snd (process_status_effects 0 (snd (process_status_effects 0 poison_victim)))) 0) = 1 \<and>
   current_hp (chars (snd (process_status_effects 0 (snd (process_status_effects 0
      (snd (process_status_effects 0 poison_victim)))))) 0) = 0 \<and>
   \<not> is_alive (chars (snd (process_status_effects 0 (snd (process_status_effects 0
      (snd (process_status_effects 0 poison_victim)))))) 0) \<and>
   status_effects (chars (snd (process_status_effects 0 (snd (process_status_effects 0
      (snd (process_status_effects 0 poison_victim)))))) 0) = []"
proof -
  have h: "status_effects (chars poison_victim 0) = [0]"
    "effect_type (effs poison_victim 0) = ''poison''"
    "effect_value (effs poison_victim 0) = 2"
    "duration (effs poison_victim 0) = 3"
    "current_hp (chars poison_victim 0) = 5"
    by (simp_all add: example_defs add_status_effect_def)
  from poison_three_passes [OF h refl refl refl] show ?thesis
    by simp
qed

text \<open>
  Claim C10: \<^verbatim>\<open>rearrange_formation\<close> with a list whose length differs from the roster size
  returns without an exception and changes neither the team (its formation included) nor
  any character (its position included); it has no access to a log.
\<close>

theorem rearrange_wrong_length_noop:
  "length new_order \<noteq> length (characters t) \<Longrightarrow>
   rearrange_formation new_order (t, cs) = (t, cs)"
  by (simp add: rearrange_formation_def)

theorem rearrange_wrong_length_noop_witness:
  "length [1, 0 :: int] \<noteq> length (characters duel_team_a) \<and>
   rearrange_formation [1, 0] (duel_team_a, duel_chars 40) = (duel_team_a, duel_chars 40)"
  using rearrange_wrong_length_noop [of "[1, 0]" duel_team_a "duel_chars 40"]
  by (simp add: duel_team_a_def)

end
